theory Spec2Isabelle
  imports Complex_Main "HOL-Library.AList"
begin

section \<open>Shared constants of the sequencer\<close>

text \<open>
  The module \<^verbatim>\<open>shared/constants\<close> is imported by the model but is not part of the
  sources at hand. The model below uses from it only the two bank types; instrument keys
  and player modes stay what they are at run time, JavaScript strings.
\<close>

text \<open>
  Modelled from the spec: the type \<^verbatim>\<open>AB\<close> of \<^verbatim>\<open>shared/constants\<close>, "Bank selector (ab):
  enum {a,b}". The code agrees: the store starts at \<^verbatim>\<open>"a"\<close> and the toggle answers
  \<^verbatim>\<open>"a"\<close> or \<^verbatim>\<open>"b"\<close>.
\<close>

datatype AB = Bank_a | Bank_b

text \<open>
  Modelled from the spec: the type \<^verbatim>\<open>ABMode\<close> of \<^verbatim>\<open>shared/constants\<close>, "Bank mode
  (abMode): enum {a, ab, b}". The code agrees: the switch of \<^verbatim>\<open>cycleABModes\<close> has
  exactly these three cases.
\<close>

datatype ABMode = Mode_a | Mode_ab | Mode_b

text \<open>The string a bank value and a mode value are at run time; \<^verbatim>\<open>mode !== ab\<close>
  compares these.\<close>

fun AB_str :: "AB \<Rightarrow> string" where
  "AB_str Bank_a = ''a''"
| "AB_str Bank_b = ''b''"

fun ABMode_str :: "ABMode \<Rightarrow> string" where
  "ABMode_str Mode_a = ''a''"
| "ABMode_str Mode_ab = ''ab''"
| "ABMode_str Mode_b = ''b''"

type_synonym InstrumentsKeys = string
type_synonym PlayerMode = string

section \<open>JavaScript arrays and objects\<close>

text \<open>\<^verbatim>\<open>xs.map((v, k) => f(v, k))\<close>: the callback sees the element and its index.\<close>

fun map_from :: "nat \<Rightarrow> ('a \<Rightarrow> nat \<Rightarrow> 'b) \<Rightarrow> 'a list \<Rightarrow> 'b list" where
  "map_from k f [] = []"
| "map_from k f (v # vs) = f v k # map_from (Suc k) f vs"

definition js_map :: "('a \<Rightarrow> nat \<Rightarrow> 'b) \<Rightarrow> 'a list \<Rightarrow> 'b list" where
  "js_map f xs = map_from 0 f xs"

text \<open>\<^verbatim>\<open>Array.from({ length: n })\<close>: \<open>n\<close> times \<^verbatim>\<open>undefined\<close>.\<close>

definition array_from_length :: "nat \<Rightarrow> unit list" where
  "array_from_length n = replicate n ()"

text \<open>\<^verbatim>\<open>xs[i]\<close> for a number \<open>i\<close>: \<^verbatim>\<open>undefined\<close> (here \<open>None\<close>) outside the array.\<close>

definition js_index :: "'a list \<Rightarrow> int \<Rightarrow> 'a option" where
  "js_index xs i = (if 0 \<le> i \<and> nat i < length xs then Some (xs ! nat i) else None)"

text \<open>Truthiness of a pattern cell that may be \<^verbatim>\<open>undefined\<close>: a number is truthy unless
  it is zero.\<close>

definition truthy :: "int option \<Rightarrow> bool" where
  "truthy v = (case v of None \<Rightarrow> False | Some n \<Rightarrow> n \<noteq> 0)"

text \<open>
  An object is the list of its entries in insertion order.
  \<^verbatim>\<open>{ ...obj, [k]: v }\<close> and \<^verbatim>\<open>Object.assign\<close> replace the value of a key that is present
  in place and append a new key, which is \<^const>\<open>AList.update\<close>.
\<close>

definition object_assign :: "('k \<times> 'v) list \<Rightarrow> ('k \<times> 'v) list \<Rightarrow> ('k \<times> 'v) list" where
  "object_assign target source = fold (\<lambda>(k, v) obj. AList.update k v obj) source target"

definition object_fromEntries :: "('k \<times> 'v) list \<Rightarrow> ('k \<times> 'v) list" where
  "object_fromEntries entries = object_assign [] entries"

section \<open>The dataset\<close>

text \<open>\<^verbatim>\<open>type InstrumentDataset = { a?: number[]; b?: number[] }\<close>\<close>

record InstrumentDataset =
  a :: "int list option"
  b :: "int list option"

text \<open>
  \<^verbatim>\<open>Record<InstrumentsKeys, InstrumentDataset>\<close>, as an object. The override given at
  construction is a \<^verbatim>\<open>Partial\<close> of it, which may also bind a key to \<^verbatim>\<open>undefined\<close>, and
  \<^verbatim>\<open>Object.assign\<close> copies such a binding; so the value of a key is \<open>Some\<close> instrument
  dataset or \<open>None\<close> for \<^verbatim>\<open>undefined\<close>.
\<close>

type_synonym InstrumentsSetDataset = "(InstrumentsKeys \<times> InstrumentDataset option) list"

text \<open>\<^verbatim>\<open>dataset[key]\<close>: \<^verbatim>\<open>undefined\<close> for a key that is missing and for one bound to
  \<^verbatim>\<open>undefined\<close>.\<close>

definition dataset_entry :: "InstrumentsSetDataset \<Rightarrow> InstrumentsKeys \<Rightarrow> InstrumentDataset option" where
  "dataset_entry dataset key = (case map_of dataset key of None \<Rightarrow> None | Some entry \<Rightarrow> entry)"

text \<open>\<^verbatim>\<open>d[ab]\<close> and \<^verbatim>\<open>{ ...d, [ab]: xs }\<close> for a bank key.\<close>

fun get_bank :: "InstrumentDataset \<Rightarrow> AB \<Rightarrow> int list option" where
  "get_bank d Bank_a = a d"
| "get_bank d Bank_b = b d"

fun set_bank :: "InstrumentDataset \<Rightarrow> AB \<Rightarrow> int list \<Rightarrow> InstrumentDataset" where
  "set_bank d Bank_a xs = d\<lparr>a := Some xs\<rparr>"
| "set_bank d Bank_b xs = d\<lparr>b := Some xs\<rparr>"

definition toggleNumber :: "int \<Rightarrow> int" where
  "toggleNumber v = (if v = 0 then 1 else 0)"

definition isOneOf :: "'a list \<Rightarrow> 'a \<Rightarrow> bool" where
  "isOneOf args target = (target \<in> set args)"

definition isNotOneOf :: "'a list \<Rightarrow> 'a \<Rightarrow> bool" where
  "isNotOneOf args target = (\<not> (target \<in> set args))"

definition createInstrumentDataset :: InstrumentDataset where
  "createInstrumentDataset =
     \<lparr>a = Some (js_map (\<lambda>_ _. 0) (array_from_length 16)),
      b = Some (js_map (\<lambda>_ _. 0) (array_from_length 16))\<rparr>"

text \<open>
  \<open>instruments\<close> stands for \<^verbatim>\<open>Object.keys(config.instruments)\<close>: the instrument set comes
  from \<^verbatim>\<open>createInstrumentsSet\<close>, which is not part of the sources at hand, and only its keys
  are used. \<open>initial\<close> is the optional partial override.
\<close>

definition createDataset ::
  "InstrumentsKeys list \<Rightarrow> InstrumentsSetDataset option \<Rightarrow> InstrumentsSetDataset" where
  "createDataset instruments initial =
     (let keys = instruments;
          dataset = object_fromEntries (map (\<lambda>key. (key, Some createInstrumentDataset)) keys)
      in case initial of
           None \<Rightarrow> dataset
         | Some ini \<Rightarrow> object_assign dataset ini)"

section \<open>Reducers of the dataset store\<close>

text \<open>
  Reading a property of \<^verbatim>\<open>undefined\<close>, spreading \<^verbatim>\<open>undefined\<close> into an array and calling
  \<^verbatim>\<open>map\<close> on it all throw a \<^verbatim>\<open>TypeError\<close>.
\<close>

datatype error = TypeError

definition on_toggleActiveInstrumentPad ::
  "InstrumentsSetDataset \<Rightarrow> AB \<Rightarrow> InstrumentsKeys \<Rightarrow> int \<Rightarrow> error + InstrumentsSetDataset" where
  "on_toggleActiveInstrumentPad dataset ab instrument pad =
     (case dataset_entry dataset instrument of
        None \<Rightarrow> Inl TypeError
      | Some d \<Rightarrow>
          (case get_bank d ab of
             None \<Rightarrow> Inl TypeError
           | Some xs \<Rightarrow>
               Inr (AList.update instrument
                      (Some (set_bank d ab
                               (js_map (\<lambda>v k. if int k = pad then toggleNumber v else v) xs)))
                      dataset)))"

definition on_clearPattern :: "InstrumentsSetDataset \<Rightarrow> InstrumentsKeys \<Rightarrow> InstrumentsSetDataset" where
  "on_clearPattern dataset instrument =
     AList.update instrument (Some createInstrumentDataset) dataset"

definition on_clearTrack :: "InstrumentsKeys list \<Rightarrow> InstrumentsSetDataset" where
  "on_clearTrack instruments = createDataset instruments None"

definition on_tapPressed ::
  "InstrumentsSetDataset \<Rightarrow> AB \<Rightarrow> InstrumentsKeys \<Rightarrow> int \<Rightarrow> error + InstrumentsSetDataset" where
  "on_tapPressed dataset ab instrument note =
     (let noteAdjusted = (if note - 1 < 0 then 0 else note - 1)
      in case dataset_entry dataset instrument of
           None \<Rightarrow> Inl TypeError
         | Some d \<Rightarrow>
             (case get_bank d ab of
                None \<Rightarrow> Inl TypeError
              | Some xs \<Rightarrow>
                  Inr (AList.update instrument
                         (Some (set_bank d ab
                                  (js_map (\<lambda>v k. if int k = noteAdjusted then 1 else v) xs)))
                         dataset)))"

section \<open>Derived stores\<close>

definition activeInstrumentPads :: "InstrumentsSetDataset \<Rightarrow> InstrumentsKeys \<Rightarrow> AB \<Rightarrow> int list" where
  "activeInstrumentPads dataset instrument ab =
     (case (case dataset_entry dataset instrument of None \<Rightarrow> None | Some d \<Rightarrow> get_bank d ab) of
        Some xs \<Rightarrow> xs
      | None \<Rightarrow> js_map (\<lambda>_ k. int k) (array_from_length 16))"

text \<open>
  \<^verbatim>\<open>copy[note] = copy[note] ? 0 : 1\<close> on a copy of the pads. An assignment past the end
  extends a JavaScript array and leaves holes, so a cell of the result is \<open>Some\<close> number or
  \<open>None\<close> for a hole; an assignment at a negative index adds no element.
\<close>

definition activePadLights :: "int list \<Rightarrow> int \<Rightarrow> bool \<Rightarrow> int option list" where
  "activePadLights activePads note isRunning =
     (let copy = map Some activePads
      in if isRunning then
           (let v = (if truthy (js_index activePads note) then 0 else 1)
            in if note < 0 then copy
               else if nat note < length copy then copy[nat note := Some v]
               else copy @ replicate (nat note - length copy) None @ [Some v])
         else copy)"

section \<open>The step trigger\<close>

text \<open>How an effect's handler settles: it returns (or its promise resolves), or it
  throws (or its promise rejects).\<close>

datatype outcome = Done | Fail

text \<open>
  The handler of \<^verbatim>\<open>fxPlay\<close> walks \<^verbatim>\<open>Object.entries(params.dataset)\<close>. Its result is the
  sequence of instruments whose \<^verbatim>\<open>play()\<close> it called, in order, and how it settled. A throw
  ends \<^verbatim>\<open>forEach\<close> at once, and there are three ways to throw: the entry is \<^verbatim>\<open>undefined\<close>, so
  that \<^verbatim>\<open>dataset[params.ab]\<close> reads a property of \<^verbatim>\<open>undefined\<close>; the step is on but
  \<^verbatim>\<open>instruments[key]\<close> is no instrument; or the instrument's \<^verbatim>\<open>play()\<close> itself throws.
  \<open>instruments\<close> are the keys of the instrument set and \<open>play key\<close> says how the \<^verbatim>\<open>play()\<close> of
  that instrument settles; both belong to \<^verbatim>\<open>createInstrumentsSet\<close>, which is not part of the
  sources at hand.
\<close>

text \<open>The test \<^verbatim>\<open>dataset[params.ab]?.[params.note]\<close> of the handler, on an entry that is
  an object.\<close>

definition step_on :: "InstrumentDataset \<Rightarrow> AB \<Rightarrow> int \<Rightarrow> bool" where
  "step_on dataset ab note =
     truthy (case get_bank dataset ab of None \<Rightarrow> None | Some xs \<Rightarrow> js_index xs note)"

fun forEach_play ::
  "InstrumentsKeys list \<Rightarrow> (InstrumentsKeys \<Rightarrow> outcome) \<Rightarrow> InstrumentsSetDataset \<Rightarrow> AB \<Rightarrow> int
     \<Rightarrow> InstrumentsKeys list \<times> outcome" where
  "forEach_play instruments play [] ab note = ([], Done)"
| "forEach_play instruments play ((key, entry) # rest) ab note =
     (case entry of
        None \<Rightarrow> ([], Fail)
      | Some dataset \<Rightarrow>
          if step_on dataset ab note
          then (if key \<in> set instruments
                then (case play key of
                        Done \<Rightarrow>
                          (case forEach_play instruments play rest ab note of
                             (played, r) \<Rightarrow> (key # played, r))
                      | Fail \<Rightarrow> ([key], Fail))
                else ([], Fail))
          else forEach_play instruments play rest ab note)"

definition fxPlay_handler ::
  "InstrumentsKeys list \<Rightarrow> (InstrumentsKeys \<Rightarrow> outcome) \<Rightarrow> InstrumentsSetDataset \<Rightarrow> AB \<Rightarrow> int
     \<Rightarrow> (InstrumentsKeys \<times> bool) list \<Rightarrow> InstrumentsKeys list \<times> outcome" where
  "fxPlay_handler instruments play dataset ab note substitutedInstruments =
     forEach_play instruments play dataset ab note"

section \<open>The stores and their transitions\<close>

record model =
  currentMode_store :: PlayerMode
  instrument_store :: InstrumentsKeys
  abMode_store :: ABMode
  ab_store :: AB
  dataset_store :: InstrumentsSetDataset
  note_store :: int
  isRunning_store :: bool
  lowTumbler :: bool
  midTumbler :: bool
  hiTumbler :: bool
  rimShotTumbler :: bool
  clapTumbler :: bool

definition substitutedInstruments_store :: "model \<Rightarrow> (InstrumentsKeys \<times> bool) list" where
  "substitutedInstruments_store st =
     [(''lowTom'', lowTumbler st), (''midTom'', midTumbler st), (''hiTom'', hiTumbler st),
      (''handClap'', clapTumbler st), (''rimShot'', rimShotTumbler st)]"

text \<open>A store whose reducer throws keeps its value.\<close>

definition update_dataset :: "model \<Rightarrow> error + InstrumentsSetDataset \<Rightarrow> model" where
  "update_dataset st r = (case r of Inl _ \<Rightarrow> st | Inr ds \<Rightarrow> st\<lparr>dataset_store := ds\<rparr>)"

definition toggleActiveInstrumentPad :: "int \<Rightarrow> model \<Rightarrow> model" where
  "toggleActiveInstrumentPad pad st =
     update_dataset st
       (on_toggleActiveInstrumentPad (dataset_store st) (ab_store st) (instrument_store st) pad)"

definition tapPressed :: "model \<Rightarrow> model" where
  "tapPressed st =
     update_dataset st
       (on_tapPressed (dataset_store st) (ab_store st) (instrument_store st) (note_store st))"

definition clearPattern :: "model \<Rightarrow> model" where
  "clearPattern st = st\<lparr>dataset_store := on_clearPattern (dataset_store st) (instrument_store st)\<rparr>"

definition clearTrack :: "InstrumentsKeys list \<Rightarrow> model \<Rightarrow> model" where
  "clearTrack instruments st = st\<lparr>dataset_store := on_clearTrack instruments\<rparr>"

text \<open>Both guards on \<^verbatim>\<open>clearButtonPressed\<close> filter on the current mode, which neither
  target changes.\<close>

definition clearButtonPressed :: "InstrumentsKeys list \<Rightarrow> model \<Rightarrow> model" where
  "clearButtonPressed instruments st =
     (let mode = currentMode_store st;
          st1 = (if isOneOf [''compose'', ''play''] mode then clearTrack instruments st else st);
          st2 = (if isNotOneOf [''compose'', ''play'', ''manualPlay''] mode then clearPattern st1 else st1)
      in st2)"

definition toggleAB :: "AB \<Rightarrow> AB" where
  "toggleAB state = (if state = Bank_a then Bank_b else Bank_a)"

definition cycleABModes :: "ABMode \<Rightarrow> ABMode" where
  "cycleABModes mode = (case mode of Mode_a \<Rightarrow> Mode_ab | Mode_ab \<Rightarrow> Mode_b | Mode_b \<Rightarrow> Mode_a)"

text \<open>The filter of \<^verbatim>\<open>abToggled\<close>, a combination of the mode and the bank.\<close>

definition abToggled_filter :: "ABMode \<Rightarrow> AB \<Rightarrow> bool" where
  "abToggled_filter mode ab = (if mode = Mode_ab then True else ABMode_str mode \<noteq> AB_str ab)"

text \<open>
  \<^verbatim>\<open>$note.updates\<close> carries the new step; the first guard lets step 0 pass, the second
  asks the filter, and what passes is forwarded to \<^verbatim>\<open>toggleAB\<close>.
\<close>

definition note_updates :: "int \<Rightarrow> model \<Rightarrow> model" where
  "note_updates note st =
     (if note = 0 \<and> abToggled_filter (abMode_store st) (ab_store st)
      then st\<lparr>ab_store := toggleAB (ab_store st)\<rparr>
      else st)"

definition on_fxPlay_done :: "int \<Rightarrow> int" where
  "on_fxPlay_done note = (if note = 15 then 0 else note + 1)"

text \<open>\<^verbatim>\<open>fxPlay.done\<close>: the step advances, and a store that changed announces its update.\<close>

definition fxPlay_done :: "model \<Rightarrow> model" where
  "fxPlay_done st =
     (let note = on_fxPlay_done (note_store st);
          st1 = st\<lparr>note_store := note\<rparr>
      in if note \<noteq> note_store st then note_updates note st1 else st1)"

text \<open>\<^verbatim>\<open>fxPlay\<close> is the handler attached to a snapshot of the stores.\<close>

definition fxPlay ::
  "InstrumentsKeys list \<Rightarrow> (InstrumentsKeys \<Rightarrow> outcome) \<Rightarrow> model \<Rightarrow> InstrumentsKeys list \<times> outcome" where
  "fxPlay instruments play st =
     fxPlay_handler instruments play (dataset_store st) (ab_store st) (note_store st)
       (substitutedInstruments_store st)"

text \<open>Only a handler that completed fires \<^verbatim>\<open>fxPlay.done\<close>; nothing is registered on
  \<^verbatim>\<open>fxPlay.fail\<close>.\<close>

definition fxPlay_settled :: "outcome \<Rightarrow> model \<Rightarrow> model" where
  "fxPlay_settled r st = (case r of Done \<Rightarrow> fxPlay_done st | Fail \<Rightarrow> st)"

text \<open>
  A tick of the generator is forwarded to \<^verbatim>\<open>fxPlay\<close>. The result is the instruments whose
  \<^verbatim>\<open>play()\<close> was called and the next state.
\<close>

definition tick ::
  "InstrumentsKeys list \<Rightarrow> (InstrumentsKeys \<Rightarrow> outcome) \<Rightarrow> model \<Rightarrow> InstrumentsKeys list \<times> model" where
  "tick instruments play st =
     (case fxPlay instruments play st of (played, r) \<Rightarrow> (played, fxPlay_settled r st))"

text \<open>
  The \<^verbatim>\<open>start\<close> effect. A reducer registered with \<^verbatim>\<open>.on(start, ...)\<close> runs when the effect is
  called, before its handler awaits \<^verbatim>\<open>Tone.start()\<close>. Nothing is registered on
  \<^verbatim>\<open>start.done\<close>, \<^verbatim>\<open>start.fail\<close> or \<^verbatim>\<open>start.finally\<close>, so the settling of the handler changes
  no store.
\<close>

definition start_called :: "model \<Rightarrow> model" where
  "start_called st = st\<lparr>isRunning_store := True\<rparr>"

definition start_settled :: "outcome \<Rightarrow> model \<Rightarrow> model" where
  "start_settled r st = st"

definition start :: "outcome \<Rightarrow> model \<Rightarrow> model" where
  "start r st = start_settled r (start_called st)"

definition stop :: "model \<Rightarrow> model" where
  "stop st = st\<lparr>isRunning_store := False\<rparr>"

text \<open>The stores as \<^verbatim>\<open>createRoland808Model\<close> creates them; \<^verbatim>\<open>playerModes[1]\<close> is a
  constant of the missing module and stays a parameter.\<close>

definition createRoland808Model ::
  "PlayerMode \<Rightarrow> InstrumentsKeys list \<Rightarrow> InstrumentsSetDataset option \<Rightarrow> model" where
  "createRoland808Model playerModes1 instruments config_dataset =
     \<lparr>currentMode_store = playerModes1,
      instrument_store = ''bassDrum'',
      abMode_store = Mode_a,
      ab_store = Bank_a,
      dataset_store = createDataset instruments config_dataset,
      note_store = 0,
      isRunning_store = False,
      lowTumbler = False,
      midTumbler = False,
      hiTumbler = False,
      rimShotTumbler = False,
      clapTumbler = False\<rparr>"

section \<open>The range drag control\<close>

text \<open>
  Numbers of the drag control are taken as reals. \<^verbatim>\<open>Math.round\<close> rounds to the nearest
  integer, halves upwards. \<^verbatim>\<open>config.threshold || 35\<close> replaces a missing threshold and a
  zero one by 35.
\<close>

definition Math_round :: "real \<Rightarrow> real" where
  "Math_round x = of_int \<lfloor>x + 1 / 2\<rfloor>"

text \<open>The value \<^verbatim>\<open>onDrag\<close> of a range control hands to \<^verbatim>\<open>config.handler\<close>; \<open>cache\<close> is what
  \<^verbatim>\<open>resolveCache\<close> gave at the start of the drag.\<close>

definition range_onDrag :: "real \<times> real \<Rightarrow> real option \<Rightarrow> real \<Rightarrow> real \<Rightarrow> real" where
  "range_onDrag config_range config_threshold cache distance =
     (let base = snd config_range;
          threshold = (case config_threshold of
                         None \<Rightarrow> 35
                       | Some t \<Rightarrow> if t = 0 then 35 else t);
          newValue = Math_round (base - cache - distance / threshold);
          maxValue = base;
          resultValue =
            base - (if newValue > maxValue then maxValue
                    else if newValue \<le> fst config_range then fst config_range
                    else newValue)
      in resultValue)"

section \<open>The dataset invariant and the cells of a dataset\<close>

text \<open>
  The invariant of the data model: every instrument key is present, every bank array has
  length 16, and every value is 0 or 1.
\<close>

definition wf_bank :: "int list option \<Rightarrow> bool" where
  "wf_bank bank =
     (case bank of
        None \<Rightarrow> False
      | Some xs \<Rightarrow> length xs = 16 \<and> list_all (\<lambda>v. v = 0 \<or> v = 1) xs)"

definition wf_instrument :: "InstrumentDataset \<Rightarrow> bool" where
  "wf_instrument d = (wf_bank (a d) \<and> wf_bank (b d))"

definition wf_entry :: "InstrumentDataset option \<Rightarrow> bool" where
  "wf_entry entry = (case entry of None \<Rightarrow> False | Some d \<Rightarrow> wf_instrument d)"

definition wf_dataset :: "InstrumentsKeys list \<Rightarrow> InstrumentsSetDataset \<Rightarrow> bool" where
  "wf_dataset instruments dataset =
     (list_all (\<lambda>key. map_of dataset key \<noteq> None) instruments
      \<and> list_all (\<lambda>(key, entry). wf_entry entry) dataset)"

text \<open>\<^verbatim>\<open>dataset[key]?.[bank]?.[j]\<close>: one cell of a dataset, \<open>None\<close> where there is none.\<close>

definition cell :: "InstrumentsSetDataset \<Rightarrow> InstrumentsKeys \<Rightarrow> AB \<Rightarrow> int \<Rightarrow> int option" where
  "cell dataset key bank j =
     (case dataset_entry dataset key of
        None \<Rightarrow> None
      | Some d \<Rightarrow> (case get_bank d bank of None \<Rightarrow> None | Some xs \<Rightarrow> js_index xs j))"


section \<open>Arrays: length and cells of an indexed map\<close>

lemma length_map_from: "length (map_from k f xs) = length xs"
  by (induction xs arbitrary: k) auto

lemma nth_map_from: "i < length xs \<Longrightarrow> map_from k f xs ! i = f (xs ! i) (k + i)"
  by (induction xs arbitrary: k i) (auto simp: nth_Cons split: nat.splits)

lemma length_js_map: "length (js_map f xs) = length xs"
  by (simp add: js_map_def length_map_from)

lemma nth_js_map: "i < length xs \<Longrightarrow> js_map f xs ! i = f (xs ! i) i"
  by (simp add: js_map_def nth_map_from)

lemma zeros16: "js_map (\<lambda>_ _. 0::int) (array_from_length 16) = replicate 16 0"
  by (rule nth_equalityI) (simp_all add: length_js_map nth_js_map array_from_length_def)

lemma indices16:
  "js_map (\<lambda>_ k. int k) (array_from_length 16) = [0, 1, 2, 3, 4, 5, 6, 7, 8, 9, 10, 11, 12, 13, 14, 15]"
  by (simp add: js_map_def array_from_length_def eval_nat_numeral)

section \<open>The playback position\<close>

lemma on_fxPlay_done_mod: "0 \<le> s \<Longrightarrow> s \<le> 15 \<Longrightarrow> on_fxPlay_done s = (s + 1) mod 16"
  by (simp add: on_fxPlay_done_def)

lemma note_store_note_updates: "note_store (note_updates n st) = note_store st"
  by (simp add: note_updates_def)

lemma note_store_fxPlay_done: "note_store (fxPlay_done st) = on_fxPlay_done (note_store st)"
  by (simp add: fxPlay_done_def Let_def note_store_note_updates)

lemma note_store_fxPlay_settled:
  "note_store (fxPlay_settled r st) = (if r = Done then on_fxPlay_done (note_store st) else note_store st)"
  by (cases r) (simp_all add: fxPlay_settled_def note_store_fxPlay_done)

lemma snd_tick: "snd (tick instruments play st) = fxPlay_settled (snd (fxPlay instruments play st)) st"
  by (simp add: tick_def split: prod.splits)


lemma note_store_update_dataset: "note_store (update_dataset st r) = note_store st"
  by (simp add: update_dataset_def split: sum.splits)

text \<open>
  C5. From a step \<open>s\<close> in 0..15 a completed trigger cycle moves the playback position to
  \<open>(s + 1) mod 16\<close>. A trigger cycle that did not complete leaves the position alone, and
  so does every other transition: the position advances once per completed cycle. A tick
  advances the position exactly when the cycle it runs completes.
\<close>

theorem note_advances_once_per_cycle:
  assumes "0 \<le> note_store st" and "note_store st \<le> 15"
  shows "note_store (fxPlay_settled Done st) = (note_store st + 1) mod 16
       \<and> note_store (fxPlay_settled Fail st) = note_store st
       \<and> note_store (snd (tick instruments play st)) =
           (if snd (fxPlay instruments play st) = Done
            then (note_store st + 1) mod 16 else note_store st)
       \<and> note_store (toggleActiveInstrumentPad pad st) = note_store st
       \<and> note_store (tapPressed st) = note_store st
       \<and> note_store (clearButtonPressed instruments st) = note_store st
       \<and> note_store (start r st) = note_store st
       \<and> note_store (stop st) = note_store st"
proof -
  have "note_store (fxPlay_settled Done st) = (note_store st + 1) mod 16"
    using assms by (simp add: note_store_fxPlay_settled on_fxPlay_done_mod)
  moreover have "note_store (fxPlay_settled Fail st) = note_store st"
    by (simp add: note_store_fxPlay_settled)
  moreover have "note_store (snd (tick instruments play st)) =
           (if snd (fxPlay instruments play st) = Done
            then (note_store st + 1) mod 16 else note_store st)"
    using assms by (simp add: snd_tick note_store_fxPlay_settled on_fxPlay_done_mod)
  moreover have "note_store (toggleActiveInstrumentPad pad st) = note_store st"
    by (simp add: toggleActiveInstrumentPad_def note_store_update_dataset)
  moreover have "note_store (tapPressed st) = note_store st"
    by (simp add: tapPressed_def note_store_update_dataset)
  moreover have "note_store (clearButtonPressed instruments st) = note_store st"
    by (simp add: clearButtonPressed_def Let_def clearTrack_def clearPattern_def)
  moreover have "note_store (start r st) = note_store st"
    by (simp add: start_def start_settled_def start_called_def)
  moreover have "note_store (stop st) = note_store st"
    by (simp add: stop_def)
  ultimately show ?thesis by blast
qed

theorem note_advances_once_per_cycle_witness:
  "note_store (snd (tick [''bassDrum''] (\<lambda>key. Done)
      ((createRoland808Model ''play'' [''bassDrum''] None)\<lparr>note_store := 15\<rparr>))) = 0
   \<and> note_store (snd (tick [''bassDrum''] (\<lambda>key. Done)
      (createRoland808Model ''play'' [''bassDrum''] None))) = 1
   \<and> note_store (snd (tick [''bassDrum''] (\<lambda>key. Done)
      (createRoland808Model ''play'' [''bassDrum''] (Some [(''bassDrum'', None)])))) = 0"
proof -
  let ?st = "createRoland808Model ''play'' [''bassDrum''] None"
  let ?bad = "createRoland808Model ''play'' [''bassDrum''] (Some [(''bassDrum'', None)])"
  have zero: "js_index (replicate 16 (0::int)) i = (if 0 \<le> i \<and> i < 16 then Some 0 else None)" for i
    by (auto simp: js_index_def)
  have done0: "snd (fxPlay [''bassDrum''] (\<lambda>key. Done) ?st) = Done"
    by (simp add: fxPlay_def fxPlay_handler_def createRoland808Model_def createDataset_def
          object_fromEntries_def object_assign_def createInstrumentDataset_def zeros16 zero step_on_def
          truthy_def)
  have done15: "snd (fxPlay [''bassDrum''] (\<lambda>key. Done) (?st\<lparr>note_store := 15\<rparr>)) = Done"
    by (simp add: fxPlay_def fxPlay_handler_def createRoland808Model_def createDataset_def
          object_fromEntries_def object_assign_def createInstrumentDataset_def zeros16 zero step_on_def
          truthy_def substitutedInstruments_store_def)
  have fail: "snd (fxPlay [''bassDrum''] (\<lambda>key. Done) ?bad) = Fail"
    by (simp add: fxPlay_def fxPlay_handler_def createRoland808Model_def createDataset_def
          object_fromEntries_def object_assign_def)
  have n15: "note_store (?st\<lparr>note_store := 15\<rparr>) = 15" by simp
  have n0: "note_store ?st = 0" and nbad: "note_store ?bad = 0"
    by (simp_all add: createRoland808Model_def)
  have "0 \<le> note_store (?st\<lparr>note_store := 15\<rparr>)" and "note_store (?st\<lparr>note_store := 15\<rparr>) \<le> 15"
    by simp_all
  from note_advances_once_per_cycle [OF this, of "[''bassDrum'']" "\<lambda>key. Done",
         THEN conjunct2, THEN conjunct2, THEN conjunct1]
  have c15: "note_store (snd (tick [''bassDrum''] (\<lambda>key. Done) (?st\<lparr>note_store := 15\<rparr>))) = 0"
    unfolding done15 n15 by simp
  have "0 \<le> note_store ?st" and "note_store ?st \<le> 15"
    by (simp_all add: n0)
  from note_advances_once_per_cycle [OF this, of "[''bassDrum'']" "\<lambda>key. Done",
         THEN conjunct2, THEN conjunct2, THEN conjunct1]
  have c0: "note_store (snd (tick [''bassDrum''] (\<lambda>key. Done) ?st)) = 1"
    unfolding done0 n0 by simp
  have "0 \<le> note_store ?bad" and "note_store ?bad \<le> 15"
    by (simp_all add: nbad)
  from note_advances_once_per_cycle [OF this, of "[''bassDrum'']" "\<lambda>key. Done",
         THEN conjunct2, THEN conjunct2, THEN conjunct1]
  have cbad: "note_store (snd (tick [''bassDrum''] (\<lambda>key. Done) ?bad)) = 0"
    unfolding fail nbad by simp
  from c15 c0 cbad show ?thesis by (intro conjI)
qed

section \<open>The bank switch at step 0\<close>

text \<open>The step-0 event of the bank switch is the update of the position that a completed
  cycle at step 15 announces; no other advance touches the bank.\<close>

lemma fxPlay_done_at_15:
  "note_store st = 15 \<Longrightarrow> fxPlay_done st = note_updates 0 (st\<lparr>note_store := 0\<rparr>)"
  by (simp add: fxPlay_done_def on_fxPlay_done_def Let_def)

lemma fxPlay_done_below_15:
  "0 \<le> note_store st \<Longrightarrow> note_store st < 15 \<Longrightarrow> ab_store (fxPlay_done st) = ab_store st"
  by (simp add: fxPlay_done_def on_fxPlay_done_def Let_def note_updates_def)

text \<open>
  C4. After a step-0 boundary event the bank is \<open>a\<close> exactly when the mode is \<open>a\<close>, or the
  mode is \<open>ab\<close> and the bank was \<open>b\<close>; it is \<open>b\<close> exactly when the mode is \<open>b\<close>, or the mode
  is \<open>ab\<close> and the bank was \<open>a\<close>; and it is unchanged exactly when the mode names the old
  bank and is not \<open>ab\<close>.
\<close>

theorem bank_after_step_zero:
  "(ab_store (note_updates 0 st) = Bank_a) =
     (abMode_store st = Mode_a \<or> (abMode_store st = Mode_ab \<and> ab_store st = Bank_b))
   \<and> (ab_store (note_updates 0 st) = Bank_b) =
     (abMode_store st = Mode_b \<or> (abMode_store st = Mode_ab \<and> ab_store st = Bank_a))
   \<and> (ab_store (note_updates 0 st) = ab_store st) =
     (ABMode_str (abMode_store st) = AB_str (ab_store st) \<and> abMode_store st \<noteq> Mode_ab)"
  by (cases "abMode_store st"; cases "ab_store st")
     (simp_all add: note_updates_def abToggled_filter_def toggleAB_def)

section \<open>The start effect\<close>

text \<open>
  C1, as the specification states it, fails: from a stopped transport, a run of the start
  effect whose warm-up fails leaves the running flag true.
\<close>

theorem start_fail_counterexample:
  "isRunning_store (createRoland808Model ''play'' [''bassDrum''] None) = False
   \<and> isRunning_store (start Fail (createRoland808Model ''play'' [''bassDrum''] None)) = True"
  by (simp add: createRoland808Model_def start_def start_settled_def start_called_def)

text \<open>
  C1, amended. In every run of the start effect the running flag is true from the call of
  the effect on, whether the warm-up then succeeds or fails; the run changes no pattern
  state and no other store.
\<close>

theorem start_sets_running_at_call:
  "isRunning_store (start_called st) = True
   \<and> isRunning_store (start r st) = True
   \<and> dataset_store (start r st) = dataset_store st
   \<and> start r st = st\<lparr>isRunning_store := True\<rparr>"
  by (simp add: start_def start_settled_def start_called_def)

section \<open>The values a range drag control hands on\<close>

text \<open>Whatever the drag, the value handed on lies between 0 and the width of the range;
  that is the range itself only when the range starts at 0.\<close>

lemma range_onDrag_bounds:
  assumes "fst r \<le> snd r"
  shows "0 \<le> range_onDrag r t c d \<and> range_onDrag r t c d \<le> snd r - fst r"
  using assms by (simp add: range_onDrag_def Let_def)

lemma range_onDrag_in_range_from_zero:
  assumes "fst r = 0" and "0 \<le> snd r"
  shows "fst r \<le> range_onDrag r t c d \<and> range_onDrag r t c d \<le> snd r"
  using assms range_onDrag_bounds [of r t c d] by simp

text \<open>
  C8. The value handed to the handler should lie within the range. With the range
  \<open>[10, 20]\<close>, the default threshold, a start value of 15 and a drag of \<open>-700\<close> the handler
  receives 0, which is below the range.
\<close>

theorem range_onDrag_leaves_range:
  "range_onDrag (10, 20) None 15 (- 700) = 0"
  by (simp add: range_onDrag_def Math_round_def)

section \<open>Objects and the dataset invariant\<close>

lemma get_bank_set_bank:
  "get_bank (set_bank d bank xs) bank' = (if bank' = bank then Some xs else get_bank d bank')"
  by (cases bank; cases bank') simp_all

lemma set_bank_set_bank: "set_bank (set_bank d bank xs) bank ys = set_bank d bank ys"
  by (cases bank) simp_all

lemma set_bank_same: "get_bank d bank = Some xs \<Longrightarrow> set_bank d bank xs = d"
  by (cases bank) simp_all

lemma wf_instrument_banks: "wf_instrument d = (wf_bank (get_bank d Bank_a) \<and> wf_bank (get_bank d Bank_b))"
  by (simp add: wf_instrument_def)

lemma wf_instrument_get_bank: "wf_instrument d \<Longrightarrow> wf_bank (get_bank d bank)"
  by (cases bank) (simp_all add: wf_instrument_def)

lemma wf_instrument_set_bank:
  "wf_instrument d \<Longrightarrow> wf_bank (Some xs) \<Longrightarrow> wf_instrument (set_bank d bank xs)"
  by (cases bank) (simp_all add: wf_instrument_def)

lemma wf_bank_Some: "wf_bank (Some xs) = (length xs = 16 \<and> (\<forall>i<16. xs ! i = 0 \<or> xs ! i = 1))"
  by (auto simp: wf_bank_def list_all_length)

lemma wf_bank_obtain:
  assumes "wf_bank bank"
  obtains xs where "bank = Some xs" and "length xs = 16" and "\<And>i. i < 16 \<Longrightarrow> xs ! i = 0 \<or> xs ! i = 1"
  using assms by (cases bank) (auto simp: wf_bank_def list_all_length)

lemma wf_createInstrumentDataset: "wf_instrument createInstrumentDataset"
  by (simp add: wf_instrument_def createInstrumentDataset_def zeros16 wf_bank_def list_all_iff)

lemma wf_entry_simps: "wf_entry None = False" "wf_entry (Some d) = wf_instrument d"
  by (simp_all add: wf_entry_def)

lemma dataset_entry_update:
  "dataset_entry (AList.update k entry ds) key = (if key = k then entry else dataset_entry ds key)"
  by (simp add: dataset_entry_def update_conv')

lemma list_all_update:
  "list_all P al \<Longrightarrow> P (k, v) \<Longrightarrow> list_all P (AList.update k v al)"
  by (induction al) auto

lemma map_of_update_present: "map_of al k' \<noteq> None \<Longrightarrow> map_of (AList.update k v al) k' \<noteq> None"
  by (simp add: update_conv')

lemma list_all_object_assign:
  "list_all P target \<Longrightarrow> list_all P source \<Longrightarrow> list_all P (object_assign target source)"
  unfolding object_assign_def
  by (induction source arbitrary: target) (auto simp: list_all_update)

lemma present_object_assign:
  "map_of target k \<noteq> None \<Longrightarrow> map_of (object_assign target source) k \<noteq> None"
  unfolding object_assign_def
  by (induction source arbitrary: target) (auto simp: update_conv')

lemma present_object_assign_source:
  "k \<in> fst ` set source \<Longrightarrow> map_of (object_assign target source) k \<noteq> None"
  unfolding object_assign_def
proof (induction source arbitrary: target)
  case Nil
  then show ?case by simp
next
  case (Cons p source)
  show ?case
  proof (cases "k \<in> fst ` set source")
    case True
    with Cons.IH show ?thesis by (cases p) simp
  next
    case False
    with Cons.prems have "fst p = k" by auto
    then have "map_of (AList.update (fst p) (snd p) target) k \<noteq> None"
      by (simp add: update_conv')
    then show ?thesis
      using present_object_assign [of "AList.update (fst p) (snd p) target" k source]
      by (cases p) (simp add: object_assign_def)
  qed
qed

lemma keys_object_assign:
  "fst ` set (object_assign target source) = fst ` set target \<union> fst ` set source"
  unfolding object_assign_def
proof (induction source arbitrary: target)
  case Nil
  then show ?case by simp
next
  case (Cons p source)
  have "fst ` set (AList.update (fst p) (snd p) target) = {fst p} \<union> fst ` set target"
    by (rule dom_update)
  with Cons.IH [of "AList.update (fst p) (snd p) target"] show ?case
    by (simp add: case_prod_beta)
qed

lemma createDataset_None_entries:
  "list_all (\<lambda>(key, entry). entry = Some createInstrumentDataset) (createDataset instruments None)"
  unfolding createDataset_def object_fromEntries_def Let_def option.case
  by (rule list_all_object_assign) (simp_all add: list_all_iff)

lemma createDataset_None_keys:
  "fst ` set (createDataset instruments None) = set instruments"
  by (simp add: createDataset_def object_fromEntries_def keys_object_assign image_image)

lemma map_of_createDataset_None:
  "map_of (createDataset instruments None) key =
     (if key \<in> set instruments then Some (Some createInstrumentDataset) else None)"
proof (cases "key \<in> set instruments")
  case True
  then have "key \<in> fst ` set (createDataset instruments None)"
    by (simp add: createDataset_None_keys)
  then obtain entry where e: "map_of (createDataset instruments None) key = Some entry"
    by (metis domD dom_map_of_conv_image_fst)
  then have "(key, entry) \<in> set (createDataset instruments None)"
    by (rule map_of_SomeD)
  with createDataset_None_entries [of instruments] have "entry = Some createInstrumentDataset"
    by (auto simp: list_all_iff)
  with e True show ?thesis by simp
next
  case False
  then have "key \<notin> fst ` set (createDataset instruments None)"
    by (simp add: createDataset_None_keys)
  then have "map_of (createDataset instruments None) key = None"
    by (simp add: map_of_eq_None_iff)
  with False show ?thesis by simp
qed

lemma dataset_entry_createDataset_None:
  "dataset_entry (createDataset instruments None) key =
     (if key \<in> set instruments then Some createInstrumentDataset else None)"
  by (simp add: dataset_entry_def map_of_createDataset_None)

lemma wf_createDataset_None: "wf_dataset instruments (createDataset instruments None)"
proof -
  have "list_all (\<lambda>key. map_of (createDataset instruments None) key \<noteq> None) instruments"
    by (simp add: list_all_iff map_of_createDataset_None)
  moreover have "list_all (\<lambda>(key, entry). wf_entry entry) (createDataset instruments None)"
    using createDataset_None_entries [of instruments]
    by (auto simp: list_all_iff wf_entry_simps wf_createInstrumentDataset)
  ultimately show ?thesis by (simp add: wf_dataset_def)
qed

lemma wf_createDataset_Some:
  assumes "list_all (\<lambda>(key, entry). wf_entry entry) ini"
  shows "wf_dataset instruments (createDataset instruments (Some ini))"
proof -
  have eq: "createDataset instruments (Some ini) = object_assign (createDataset instruments None) ini"
    by (simp add: createDataset_def)
  have "map_of (object_assign (createDataset instruments None) ini) key \<noteq> None"
    if "key \<in> set instruments" for key
    using that by (intro present_object_assign) (simp add: map_of_createDataset_None)
  then have "list_all (\<lambda>key. map_of (createDataset instruments (Some ini)) key \<noteq> None) instruments"
    unfolding eq list_all_iff by blast
  moreover have "list_all (\<lambda>(key, entry). wf_entry entry) (createDataset instruments (Some ini))"
    unfolding eq using assms wf_createDataset_None [of instruments]
    by (intro list_all_object_assign) (simp_all add: wf_dataset_def)
  ultimately show ?thesis by (simp add: wf_dataset_def)
qed

lemma wf_dataset_update:
  assumes wf: "wf_dataset instruments ds" and d: "wf_instrument d"
  shows "wf_dataset instruments (AList.update key (Some d) ds)"
proof -
  from wf have "list_all (\<lambda>k. map_of (AList.update key (Some d) ds) k \<noteq> None) instruments"
    by (auto simp: wf_dataset_def list_all_iff update_conv')
  moreover from wf d have "list_all (\<lambda>(k, entry). wf_entry entry) (AList.update key (Some d) ds)"
    by (intro list_all_update) (simp_all add: wf_dataset_def wf_entry_simps)
  ultimately show ?thesis by (simp add: wf_dataset_def)
qed

lemma wf_dataset_lookup:
  assumes "wf_dataset instruments ds" and "dataset_entry ds key = Some d"
  shows "wf_instrument d"
proof -
  from assms(2) have "map_of ds key = Some (Some d)"
    by (auto simp: dataset_entry_def split: option.splits)
  then have "(key, Some d) \<in> set ds" by (rule map_of_SomeD)
  with assms(1) have "wf_entry (Some d)" by (auto simp: wf_dataset_def list_all_iff)
  then show ?thesis by (simp add: wf_entry_simps)
qed

lemma wf_dataset_present:
  assumes "wf_dataset instruments ds" and "key \<in> set instruments"
  obtains d where "dataset_entry ds key = Some d" and "wf_instrument d"
proof -
  from assms have "map_of ds key \<noteq> None" by (auto simp: wf_dataset_def list_all_iff)
  then obtain entry where e: "map_of ds key = Some entry" by auto
  then have "(key, entry) \<in> set ds" by (rule map_of_SomeD)
  with assms(1) have "wf_entry entry" by (auto simp: wf_dataset_def list_all_iff)
  then obtain d where "entry = Some d" and "wf_instrument d"
    by (cases entry) (simp_all add: wf_entry_simps)
  with e have "dataset_entry ds key = Some d" by (simp add: dataset_entry_def)
  with \<open>wf_instrument d\<close> that show thesis by blast
qed

section \<open>Pad toggle and tap\<close>

lemma js_index_js_map:
  "js_index (js_map f xs) j =
     (if 0 \<le> j \<and> nat j < length xs then Some (f (xs ! nat j) (nat j)) else None)"
  by (simp add: js_index_def length_js_map nth_js_map)

lemma cell_update:
  "cell (AList.update key (Some d) ds) k bank j =
     (if k = key then (case get_bank d bank of None \<Rightarrow> None | Some xs \<Rightarrow> js_index xs j)
      else cell ds k bank j)"
  by (simp add: cell_def dataset_entry_update)

lemma cell_lookup:
  "dataset_entry ds key = Some d \<Longrightarrow>
     cell ds key bank j = (case get_bank d bank of None \<Rightarrow> None | Some xs \<Rightarrow> js_index xs j)"
  by (simp add: cell_def)

lemma dataset_entry_SomeD: "dataset_entry ds key = Some d \<Longrightarrow> map_of ds key = Some (Some d)"
  by (auto simp: dataset_entry_def split: option.splits)


lemma toggleNumber_twice: "v = 0 \<or> v = 1 \<Longrightarrow> toggleNumber (toggleNumber v) = v"
  by (auto simp: toggleNumber_def)

lemma toggleNumber_binary: "toggleNumber v = 0 \<or> toggleNumber v = 1"
  by (simp add: toggleNumber_def)

lemma toggleNumber_flips: "toggleNumber v \<noteq> v"
  by (simp add: toggleNumber_def)

lemma js_map_toggle_twice:
  assumes "\<And>i. i < length xs \<Longrightarrow> xs ! i = 0 \<or> xs ! i = 1"
  shows "js_map (\<lambda>v k. if int k = pad then toggleNumber v else v)
           (js_map (\<lambda>v k. if int k = pad then toggleNumber v else v) xs) = xs"
  using assms
  by (intro nth_equalityI) (simp_all add: length_js_map nth_js_map toggleNumber_twice)

lemma wf_bank_js_map:
  assumes "wf_bank (Some xs)" and "\<And>v k. v = 0 \<or> v = 1 \<Longrightarrow> f v k = 0 \<or> f v k = 1"
  shows "wf_bank (Some (js_map f xs))"
  using assms by (simp add: wf_bank_Some length_js_map nth_js_map)

lemma on_toggleActiveInstrumentPad_Inr:
  assumes "dataset_entry ds instrument = Some d" and "get_bank d ab = Some xs"
  shows "on_toggleActiveInstrumentPad ds ab instrument pad =
           Inr (AList.update instrument
                  (Some (set_bank d ab (js_map (\<lambda>v k. if int k = pad then toggleNumber v else v) xs)))
                  ds)"
  using assms by (simp add: on_toggleActiveInstrumentPad_def)

lemma on_tapPressed_Inr:
  assumes "dataset_entry ds instrument = Some d" and "get_bank d ab = Some xs"
  shows "on_tapPressed ds ab instrument note =
           Inr (AList.update instrument
                  (Some (set_bank d ab (js_map (\<lambda>v k. if int k = max (note - 1) 0 then 1 else v) xs)))
                  ds)"
proof -
  have "(if note - 1 < 0 then 0 else note - 1) = max (note - 1) 0" by simp
  with assms show ?thesis by (simp add: on_tapPressed_def Let_def)
qed

lemma wf_on_toggleActiveInstrumentPad:
  assumes "wf_dataset instruments ds" and "on_toggleActiveInstrumentPad ds ab instrument pad = Inr ds1"
  shows "wf_dataset instruments ds1"
proof -
  from assms(2) obtain d xs where d: "dataset_entry ds instrument = Some d" and xs: "get_bank d ab = Some xs"
    by (auto simp: on_toggleActiveInstrumentPad_def split: option.splits)
  from assms(1) d have wd: "wf_instrument d" by (rule wf_dataset_lookup)
  then have "wf_bank (Some xs)" using wf_instrument_get_bank [of d ab] xs by simp
  then have "wf_bank (Some (js_map (\<lambda>v k. if int k = pad then toggleNumber v else v) xs))"
    by (rule wf_bank_js_map) (auto simp: toggleNumber_def)
  with wd have "wf_instrument (set_bank d ab (js_map (\<lambda>v k. if int k = pad then toggleNumber v else v) xs))"
    by (rule wf_instrument_set_bank)
  with assms(1) have "wf_dataset instruments (AList.update instrument
       (Some (set_bank d ab (js_map (\<lambda>v k. if int k = pad then toggleNumber v else v) xs))) ds)"
    by (rule wf_dataset_update)
  with assms(2) d xs show ?thesis by (simp add: on_toggleActiveInstrumentPad_Inr)
qed

lemma wf_on_tapPressed:
  assumes "wf_dataset instruments ds" and "on_tapPressed ds ab instrument note = Inr ds1"
  shows "wf_dataset instruments ds1"
proof -
  from assms(2) obtain d xs where d: "dataset_entry ds instrument = Some d" and xs: "get_bank d ab = Some xs"
    by (auto simp: on_tapPressed_def Let_def split: option.splits)
  from assms(1) d have wd: "wf_instrument d" by (rule wf_dataset_lookup)
  then have "wf_bank (Some xs)" using wf_instrument_get_bank [of d ab] xs by simp
  then have "wf_bank (Some (js_map (\<lambda>v k. if int k = max (note - 1) 0 then 1 else v) xs))"
    by (rule wf_bank_js_map) auto
  with wd have "wf_instrument (set_bank d ab (js_map (\<lambda>v k. if int k = max (note - 1) 0 then 1 else v) xs))"
    by (rule wf_instrument_set_bank)
  with assms(1) have "wf_dataset instruments (AList.update instrument
       (Some (set_bank d ab (js_map (\<lambda>v k. if int k = max (note - 1) 0 then 1 else v) xs))) ds)"
    by (rule wf_dataset_update)
  with assms(2) d xs show ?thesis by (simp add: on_tapPressed_Inr)
qed

text \<open>
  C6. On a well-formed dataset, for a pad \<open>p\<close> in 0..15 and any selected instrument and
  bank, the pad toggle succeeds and flips the cell at \<open>p\<close>, a second toggle gives back the
  dataset as it was, and a toggle leaves every other cell of every instrument and bank
  as it was.
\<close>

theorem pad_double_toggle:
  assumes "wf_dataset instruments ds" and "instrument \<in> set instruments"
    and "0 \<le> p" and "p \<le> 15"
  shows "\<exists>ds1. on_toggleActiveInstrumentPad ds ab instrument p = Inr ds1
           \<and> on_toggleActiveInstrumentPad ds1 ab instrument p = Inr ds
           \<and> (\<exists>v. cell ds instrument ab p = Some v
                  \<and> cell ds1 instrument ab p = Some (toggleNumber v) \<and> toggleNumber v \<noteq> v)
           \<and> (\<forall>key bank j. (key, bank, j) \<noteq> (instrument, ab, p)
                  \<longrightarrow> cell ds1 key bank j = cell ds key bank j)"
proof -
  let ?f = "\<lambda>v k. if int k = p then toggleNumber v else v"
  from assms(1,2) obtain d where d: "dataset_entry ds instrument = Some d" and wd: "wf_instrument d"
    by (rule wf_dataset_present)
  from wd have "wf_bank (get_bank d ab)" by (rule wf_instrument_get_bank)
  then obtain xs where xs: "get_bank d ab = Some xs" and len: "length xs = 16"
    and bin: "\<And>i. i < 16 \<Longrightarrow> xs ! i = 0 \<or> xs ! i = 1"
    by (rule wf_bank_obtain) blast
  define ds1 where "ds1 = AList.update instrument (Some (set_bank d ab (js_map ?f xs))) ds"
  have first: "on_toggleActiveInstrumentPad ds ab instrument p = Inr ds1"
    using d xs by (simp add: on_toggleActiveInstrumentPad_Inr ds1_def)
  have d1: "dataset_entry ds1 instrument = Some (set_bank d ab (js_map ?f xs))"
    by (simp add: ds1_def dataset_entry_update)
  have "on_toggleActiveInstrumentPad ds1 ab instrument p =
          Inr (AList.update instrument
                 (Some (set_bank (set_bank d ab (js_map ?f xs)) ab (js_map ?f (js_map ?f xs)))) ds1)"
    using d1 by (rule on_toggleActiveInstrumentPad_Inr) (simp add: get_bank_set_bank)
  also have "js_map ?f (js_map ?f xs) = xs"
    using bin len by (intro js_map_toggle_twice) simp
  also have "set_bank (set_bank d ab (js_map ?f xs)) ab xs = d"
    using xs by (simp add: set_bank_set_bank set_bank_same)
  also have "AList.update instrument (Some d) ds1 = ds"
    using dataset_entry_SomeD [OF d] by (simp add: ds1_def update_triv)
  finally have second: "on_toggleActiveInstrumentPad ds1 ab instrument p = Inr ds" .
  have at_p: "cell ds instrument ab p = Some (xs ! nat p)"
    using d xs len assms(3,4) by (simp add: cell_lookup js_index_def)
  have at_p1: "cell ds1 instrument ab p = Some (toggleNumber (xs ! nat p))"
    using len assms(3,4) by (simp add: ds1_def cell_update get_bank_set_bank js_index_js_map)
  have others: "cell ds1 key bank j = cell ds key bank j"
    if "(key, bank, j) \<noteq> (instrument, ab, p)" for key bank j
  proof (cases "key = instrument")
    case False
    then show ?thesis by (simp add: ds1_def cell_update)
  next
    case key: True
    show ?thesis
    proof (cases "bank = ab")
      case False
      with key d show ?thesis by (simp add: ds1_def cell_update get_bank_set_bank cell_lookup)
    next
      case True
      with key that have "j \<noteq> p" by simp
      then have "js_index (js_map ?f xs) j = js_index xs j"
        by (simp add: js_index_js_map) (simp add: js_index_def)
      with key True d xs show ?thesis
        by (simp add: ds1_def cell_update get_bank_set_bank cell_lookup)
    qed
  qed
  from first second at_p at_p1 others toggleNumber_flips show ?thesis by blast
qed


theorem pad_double_toggle_witness:
  "wf_dataset [''bassDrum'', ''snare''] (createDataset [''bassDrum'', ''snare''] None)
   \<and> ''snare'' \<in> set [''bassDrum'', ''snare'']
   \<and> (\<exists>ds1. on_toggleActiveInstrumentPad (createDataset [''bassDrum'', ''snare''] None) Bank_b ''snare'' 3
                = Inr ds1
          \<and> on_toggleActiveInstrumentPad ds1 Bank_b ''snare'' 3
                = Inr (createDataset [''bassDrum'', ''snare''] None)
          \<and> cell ds1 ''snare'' Bank_b 3 = Some 1
          \<and> cell ds1 ''snare'' Bank_b 4 = Some 0
          \<and> cell ds1 ''snare'' Bank_a 3 = Some 0
          \<and> cell ds1 ''bassDrum'' Bank_b 3 = Some 0)"
proof -
  let ?ds = "createDataset [''bassDrum'', ''snare''] None"
  have wf: "wf_dataset [''bassDrum'', ''snare''] ?ds"
    by (rule wf_createDataset_None)
  have mem: "''snare'' \<in> set [''bassDrum'', ''snare'']" by simp
  have c: "cell ?ds key bank j = (if (key = ''bassDrum'' \<or> key = ''snare'') \<and> 0 \<le> j \<and> j < 16
                                then Some 0 else None)" for key bank j
    by (cases bank)
       (auto simp: cell_def dataset_entry_createDataset_None createInstrumentDataset_def zeros16
          js_index_def)
  from pad_double_toggle [OF wf mem, of 3 Bank_b]
  obtain ds1 where
    "on_toggleActiveInstrumentPad ?ds Bank_b ''snare'' 3 = Inr ds1"
    "on_toggleActiveInstrumentPad ds1 Bank_b ''snare'' 3 = Inr ?ds"
    "\<exists>v. cell ?ds ''snare'' Bank_b 3 = Some v
         \<and> cell ds1 ''snare'' Bank_b 3 = Some (toggleNumber v) \<and> toggleNumber v \<noteq> v"
    "\<forall>key bank j. (key, bank, j) \<noteq> (''snare'', Bank_b, 3)
         \<longrightarrow> cell ds1 key bank j = cell ?ds key bank j"
    by auto
  then have "on_toggleActiveInstrumentPad ?ds Bank_b ''snare'' 3 = Inr ds1
      \<and> on_toggleActiveInstrumentPad ds1 Bank_b ''snare'' 3 = Inr ?ds
      \<and> cell ds1 ''snare'' Bank_b 3 = Some 1
      \<and> cell ds1 ''snare'' Bank_b 4 = Some 0
      \<and> cell ds1 ''snare'' Bank_a 3 = Some 0
      \<and> cell ds1 ''bassDrum'' Bank_b 3 = Some 0"
    by (simp add: c toggleNumber_def)
  with wf mem show ?thesis by blast
qed





section \<open>The invariant along the transitions\<close>

lemma wf_update_dataset:
  assumes "wf_dataset instruments (dataset_store st)"
    and "\<And>ds1. r = Inr ds1 \<Longrightarrow> wf_dataset instruments ds1"
  shows "wf_dataset instruments (dataset_store (update_dataset st r))"
  using assms by (cases r) (simp_all add: update_dataset_def)

lemma wf_toggleActiveInstrumentPad:
  assumes "wf_dataset instruments (dataset_store st)"
  shows "wf_dataset instruments (dataset_store (toggleActiveInstrumentPad pad st))"
  unfolding toggleActiveInstrumentPad_def using assms
  by (rule wf_update_dataset) (rule wf_on_toggleActiveInstrumentPad [OF assms])

lemma wf_tapPressed:
  assumes "wf_dataset instruments (dataset_store st)"
  shows "wf_dataset instruments (dataset_store (tapPressed st))"
  unfolding tapPressed_def using assms
  by (rule wf_update_dataset) (rule wf_on_tapPressed [OF assms])

lemma wf_clearPattern:
  "wf_dataset instruments (dataset_store st) \<Longrightarrow>
     wf_dataset instruments (dataset_store (clearPattern st))"
  by (simp add: clearPattern_def on_clearPattern_def wf_dataset_update wf_createInstrumentDataset)

lemma wf_clearTrack: "wf_dataset instruments (dataset_store (clearTrack instruments st))"
  by (simp add: clearTrack_def on_clearTrack_def wf_createDataset_None)

lemma wf_clearButtonPressed:
  "wf_dataset instruments (dataset_store st) \<Longrightarrow>
     wf_dataset instruments (dataset_store (clearButtonPressed instruments st))"
  by (simp add: clearButtonPressed_def Let_def wf_clearPattern wf_clearTrack)

text \<open>
  C7, as the specification states it, fails at construction: an override that gives an
  instrument a one-step bank \<open>a\<close> and no bank \<open>b\<close> is taken as it is.
\<close>

theorem construction_override_counterexample:
  "\<not> wf_dataset [''bassDrum'']
        (dataset_store
           (createRoland808Model ''play'' [''bassDrum'']
              (Some [(''bassDrum'', Some \<lparr>a = Some [1], b = None\<rparr>)])))"
  by (simp add: createRoland808Model_def createDataset_def object_fromEntries_def object_assign_def
        wf_dataset_def wf_entry_def wf_instrument_def wf_bank_def)

text \<open>
  C7, amended. The invariant holds after construction when there is no override or every
  entry of the override is itself well-formed, and pad toggle, \<^verbatim>\<open>tapPressed\<close>,
  \<^verbatim>\<open>clearPattern\<close>, \<^verbatim>\<open>clearTrack\<close> and the clear button preserve it from any well-formed
  state.
\<close>

theorem dataset_invariant:
  "((case config_dataset of
       None \<Rightarrow> True
     | Some ini \<Rightarrow> list_all (\<lambda>(key, entry). wf_entry entry) ini)
      \<longrightarrow> wf_dataset instruments
            (dataset_store (createRoland808Model playerModes1 instruments config_dataset)))
   \<and> (wf_dataset instruments (dataset_store st)
      \<longrightarrow> wf_dataset instruments (dataset_store (toggleActiveInstrumentPad pad st))
          \<and> wf_dataset instruments (dataset_store (tapPressed st))
          \<and> wf_dataset instruments (dataset_store (clearPattern st))
          \<and> wf_dataset instruments (dataset_store (clearTrack instruments st))
          \<and> wf_dataset instruments (dataset_store (clearButtonPressed instruments st)))"
proof -
  have "wf_dataset instruments (createDataset instruments config_dataset)"
    if "case config_dataset of None \<Rightarrow> True | Some ini \<Rightarrow> list_all (\<lambda>(key, entry). wf_entry entry) ini"
    using that by (cases config_dataset) (simp_all add: wf_createDataset_None wf_createDataset_Some)
  then show ?thesis
    by (simp add: createRoland808Model_def wf_toggleActiveInstrumentPad wf_tapPressed
          wf_clearPattern wf_clearTrack wf_clearButtonPressed)
qed

theorem dataset_invariant_witness:
  "wf_dataset [''bassDrum'', ''snare'']
     (dataset_store (createRoland808Model ''play'' [''bassDrum'', ''snare'']
        (Some [(''snare'', Some \<lparr>a = Some (replicate 16 1), b = Some (replicate 16 0)\<rparr>)])))
   \<and> wf_dataset [''bassDrum'', ''snare'']
       (dataset_store (toggleActiveInstrumentPad 3 (createRoland808Model ''play'' [''bassDrum'', ''snare'']
          (Some [(''snare'', Some \<lparr>a = Some (replicate 16 1), b = Some (replicate 16 0)\<rparr>)]))))
   \<and> wf_dataset [''bassDrum'', ''snare'']
       (dataset_store (tapPressed (createRoland808Model ''play'' [''bassDrum'', ''snare'']
          (Some [(''snare'', Some \<lparr>a = Some (replicate 16 1), b = Some (replicate 16 0)\<rparr>)]))))
   \<and> wf_dataset [''bassDrum'', ''snare'']
       (dataset_store (clearButtonPressed [''bassDrum'', ''snare'']
          (createRoland808Model ''play'' [''bassDrum'', ''snare'']
             (Some [(''snare'', Some \<lparr>a = Some (replicate 16 1), b = Some (replicate 16 0)\<rparr>)]))))"
proof -
  let ?ini = "[(''snare'', Some \<lparr>a = Some (replicate 16 (1::int)), b = Some (replicate 16 (0::int))\<rparr>)]"
  let ?st = "createRoland808Model ''play'' [''bassDrum'', ''snare''] (Some ?ini)"
  have ini: "case Some ?ini of None \<Rightarrow> True | Some ini \<Rightarrow> list_all (\<lambda>(key, entry). wf_entry entry) ini"
    by (simp add: wf_entry_def wf_instrument_def wf_bank_def list_all_iff)
  note inv = dataset_invariant [of "Some ?ini" "[''bassDrum'', ''snare'']" "''play''" ?st]
  from inv [of 3] ini have wf0: "wf_dataset [''bassDrum'', ''snare''] (dataset_store ?st)"
    by blast
  with inv [of 3] show ?thesis by blast
qed

section \<open>The clear button\<close>

text \<open>
  C3. With the mode \<open>compose\<close> or \<open>play\<close> the clear button leaves exactly the instruments
  of the set, each with two all-zero banks of 16 steps; with \<open>manualPlay\<close> it changes
  nothing; with any other mode it resets the two banks of the active instrument and leaves
  the entry of every other instrument as it was.
\<close>

theorem clear_button_by_mode:
  "(currentMode_store st \<in> {''compose'', ''play''} \<longrightarrow>
      (\<forall>key. map_of (dataset_store (clearButtonPressed instruments st)) key =
          (if key \<in> set instruments
           then Some (Some \<lparr>a = Some (replicate 16 0), b = Some (replicate 16 0)\<rparr>) else None)))
   \<and> (currentMode_store st = ''manualPlay'' \<longrightarrow> clearButtonPressed instruments st = st)
   \<and> (currentMode_store st \<notin> {''compose'', ''play'', ''manualPlay''} \<longrightarrow>
        map_of (dataset_store (clearButtonPressed instruments st)) (instrument_store st) =
          Some (Some \<lparr>a = Some (replicate 16 0), b = Some (replicate 16 0)\<rparr>)
        \<and> (\<forall>key. key \<noteq> instrument_store st \<longrightarrow>
              map_of (dataset_store (clearButtonPressed instruments st)) key =
              map_of (dataset_store st) key))"
proof -
  have zeros: "createInstrumentDataset = \<lparr>a = Some (replicate 16 0), b = Some (replicate 16 0)\<rparr>"
    by (simp add: createInstrumentDataset_def zeros16)
  have track: "map_of (dataset_store (clearButtonPressed instruments st)) key =
          (if key \<in> set instruments
           then Some (Some \<lparr>a = Some (replicate 16 0), b = Some (replicate 16 0)\<rparr>) else None)"
    if "currentMode_store st \<in> {''compose'', ''play''}" for key
    using that
    by (auto simp: clearButtonPressed_def Let_def isOneOf_def isNotOneOf_def clearTrack_def
          on_clearTrack_def map_of_createDataset_None zeros)
  have manual: "clearButtonPressed instruments st = st" if "currentMode_store st = ''manualPlay''"
    using that by (simp add: clearButtonPressed_def Let_def isOneOf_def isNotOneOf_def)
  have pattern: "dataset_store (clearButtonPressed instruments st) =
                   AList.update (instrument_store st) (Some createInstrumentDataset) (dataset_store st)"
    if "currentMode_store st \<notin> {''compose'', ''play'', ''manualPlay''}"
    using that
    by (simp add: clearButtonPressed_def Let_def isOneOf_def isNotOneOf_def clearPattern_def
          on_clearPattern_def)
  from track manual pattern show ?thesis
    by (simp add: update_conv' zeros)
qed

theorem clear_button_by_mode_witness:
  "map_of (dataset_store (clearButtonPressed [''bassDrum'', ''snare'']
      ((createRoland808Model ''play'' [''bassDrum'', ''snare'']
          (Some [(''snare'', Some \<lparr>a = Some (replicate 16 1), b = Some (replicate 16 1)\<rparr>)]))
         \<lparr>currentMode_store := ''compose''\<rparr>))) ''snare''
     = Some (Some \<lparr>a = Some (replicate 16 0), b = Some (replicate 16 0)\<rparr>)
   \<and> clearButtonPressed [''bassDrum'', ''snare'']
      ((createRoland808Model ''play'' [''bassDrum'', ''snare'']
          (Some [(''snare'', Some \<lparr>a = Some (replicate 16 1), b = Some (replicate 16 1)\<rparr>)]))
         \<lparr>currentMode_store := ''manualPlay''\<rparr>)
     = (createRoland808Model ''play'' [''bassDrum'', ''snare'']
          (Some [(''snare'', Some \<lparr>a = Some (replicate 16 1), b = Some (replicate 16 1)\<rparr>)]))
         \<lparr>currentMode_store := ''manualPlay''\<rparr>
   \<and> map_of (dataset_store (clearButtonPressed [''bassDrum'', ''snare'']
      ((createRoland808Model ''play'' [''bassDrum'', ''snare'']
          (Some [(''snare'', Some \<lparr>a = Some (replicate 16 1), b = Some (replicate 16 1)\<rparr>)]))
         \<lparr>currentMode_store := ''effects'', instrument_store := ''bassDrum''\<rparr>))) ''bassDrum''
     = Some (Some \<lparr>a = Some (replicate 16 0), b = Some (replicate 16 0)\<rparr>)
   \<and> map_of (dataset_store (clearButtonPressed [''bassDrum'', ''snare'']
      ((createRoland808Model ''play'' [''bassDrum'', ''snare'']
          (Some [(''snare'', Some \<lparr>a = Some (replicate 16 1), b = Some (replicate 16 1)\<rparr>)]))
         \<lparr>currentMode_store := ''effects'', instrument_store := ''bassDrum''\<rparr>))) ''snare''
     = Some (Some \<lparr>a = Some (replicate 16 1), b = Some (replicate 16 1)\<rparr>)"
proof -
  let ?st = "createRoland808Model ''play'' [''bassDrum'', ''snare'']
          (Some [(''snare'', Some \<lparr>a = Some (replicate 16 (1::int)), b = Some (replicate 16 (1::int))\<rparr>)])"
  have snare: "map_of (dataset_store ?st) ''snare''
                 = Some (Some \<lparr>a = Some (replicate 16 1), b = Some (replicate 16 1)\<rparr>)"
    by (simp add: createRoland808Model_def createDataset_def object_fromEntries_def object_assign_def)
  from clear_button_by_mode [of "?st\<lparr>currentMode_store := ''compose''\<rparr>" "[''bassDrum'', ''snare'']"]
  have c1: "map_of (dataset_store (clearButtonPressed [''bassDrum'', ''snare'']
              (?st\<lparr>currentMode_store := ''compose''\<rparr>))) ''snare''
            = Some (Some \<lparr>a = Some (replicate 16 0), b = Some (replicate 16 0)\<rparr>)"
    by simp
  from clear_button_by_mode [of "?st\<lparr>currentMode_store := ''manualPlay''\<rparr>" "[''bassDrum'', ''snare'']"]
  have c2: "clearButtonPressed [''bassDrum'', ''snare''] (?st\<lparr>currentMode_store := ''manualPlay''\<rparr>)
            = ?st\<lparr>currentMode_store := ''manualPlay''\<rparr>"
    by simp
  from clear_button_by_mode
         [of "?st\<lparr>currentMode_store := ''effects'', instrument_store := ''bassDrum''\<rparr>"
             "[''bassDrum'', ''snare'']"]
  have c3: "map_of (dataset_store (clearButtonPressed [''bassDrum'', ''snare'']
              (?st\<lparr>currentMode_store := ''effects'', instrument_store := ''bassDrum''\<rparr>))) ''bassDrum''
            = Some (Some \<lparr>a = Some (replicate 16 0), b = Some (replicate 16 0)\<rparr>)
          \<and> map_of (dataset_store (clearButtonPressed [''bassDrum'', ''snare'']
              (?st\<lparr>currentMode_store := ''effects'', instrument_store := ''bassDrum''\<rparr>))) ''snare''
            = Some (Some \<lparr>a = Some (replicate 16 1), b = Some (replicate 16 1)\<rparr>)"
    using snare by simp
  from c1 c2 c3 show ?thesis by blast
qed

section \<open>The instruments a tick plays\<close>

text \<open>The keys of the dataset stay distinct, as the keys of an object are, from
  construction on.\<close>

lemma distinct_object_assign:
  "distinct (map fst target) \<Longrightarrow> distinct (map fst (object_assign target source))"
  unfolding object_assign_def
  by (induction source arbitrary: target) (auto simp: distinct_update)

lemma distinct_createDataset: "distinct (map fst (createDataset instruments initial))"
  by (cases initial)
     (simp_all add: createDataset_def object_fromEntries_def distinct_object_assign)

lemma distinct_on_toggleActiveInstrumentPad:
  "distinct (map fst ds) \<Longrightarrow> on_toggleActiveInstrumentPad ds ab instrument pad = Inr ds1 \<Longrightarrow>
     distinct (map fst ds1)"
  by (auto simp: on_toggleActiveInstrumentPad_def distinct_update split: option.splits)

lemma distinct_on_tapPressed:
  "distinct (map fst ds) \<Longrightarrow> on_tapPressed ds ab instrument step = Inr ds1 \<Longrightarrow>
     distinct (map fst ds1)"
  by (auto simp: on_tapPressed_def Let_def distinct_update split: option.splits)

lemma distinct_on_clearPattern:
  "distinct (map fst ds) \<Longrightarrow> distinct (map fst (on_clearPattern ds instrument))"
  by (simp add: on_clearPattern_def distinct_update)

lemma distinct_on_clearTrack: "distinct (map fst (on_clearTrack instruments))"
  by (simp add: on_clearTrack_def distinct_createDataset)










text \<open>A cycle that is cut short: the bass drum is played, then the handler throws at a
  key that names no instrument, and the position stays where it was.\<close>

lemma aborted_cycle_example:
  "tick [''bassDrum''] (\<lambda>key. Done)
     (createRoland808Model ''play'' [''bassDrum'']
        (Some [(''bassDrum'', Some \<lparr>a = Some (1 # replicate 15 0), b = Some (replicate 16 0)\<rparr>),
               (''ghost'', Some \<lparr>a = Some (1 # replicate 15 0), b = Some (replicate 16 0)\<rparr>)]))
   = ([''bassDrum''],
      createRoland808Model ''play'' [''bassDrum'']
        (Some [(''bassDrum'', Some \<lparr>a = Some (1 # replicate 15 0), b = Some (replicate 16 0)\<rparr>),
               (''ghost'', Some \<lparr>a = Some (1 # replicate 15 0), b = Some (replicate 16 0)\<rparr>)]))"
  by (simp add: tick_def fxPlay_def fxPlay_handler_def fxPlay_settled_def createRoland808Model_def
        createDataset_def object_fromEntries_def object_assign_def step_on_def truthy_def
        js_index_def)



section \<open>The pads shown\<close>

lemma activePadLights_running:
  assumes "0 \<le> step" and "nat step < length pads"
  shows "activePadLights pads step True =
           (map Some pads)[nat step := Some (if truthy (js_index pads step) then 0 else 1)]"
  using assms by (simp add: activePadLights_def Let_def)

lemma nth_indices16:
  "i < 16 \<Longrightarrow> [0, 1, 2, 3, 4, 5, 6, 7, 8, 9, 10, 11, 12, 13, 14, 15 :: int] ! i = int i"
  unfolding indices16 [symmetric] by (simp add: nth_js_map array_from_length_def)

text \<open>
  C10. When the dataset has no entry for the active instrument, or the entry lacks the
  selected bank, the active pads are the indices 0..15, not zeros; the pad lights are
  built from that array: they equal it while the transport is stopped, and while it runs
  they differ from it in the cell of the current step only.
\<close>

theorem pads_fall_back_to_indices:
  assumes "dataset_entry dataset instrument = None
         \<or> (\<exists>d. dataset_entry dataset instrument = Some d \<and> get_bank d ab = None)"
  shows "activeInstrumentPads dataset instrument ab
           = [0, 1, 2, 3, 4, 5, 6, 7, 8, 9, 10, 11, 12, 13, 14, 15]
       \<and> activePadLights (activeInstrumentPads dataset instrument ab) note False
           = map Some [0, 1, 2, 3, 4, 5, 6, 7, 8, 9, 10, 11, 12, 13, 14, 15]
       \<and> (0 \<le> note \<and> note \<le> 15 \<longrightarrow>
            activePadLights (activeInstrumentPads dataset instrument ab) note True
              = (map Some [0, 1, 2, 3, 4, 5, 6, 7, 8, 9, 10, 11, 12, 13, 14, 15])
                  [nat note := Some (if note = 0 then 1 else 0)])"
proof -
  let ?idx = "[0, 1, 2, 3, 4, 5, 6, 7, 8, 9, 10, 11, 12, 13, 14, 15 :: int]"
  from assms have pads: "activeInstrumentPads dataset instrument ab = ?idx"
    by (auto simp: activeInstrumentPads_def indices16)
  have stopped: "activePadLights ?idx note False = map Some ?idx"
    by (simp add: activePadLights_def)
  have running: "activePadLights ?idx note True
                   = (map Some ?idx)[nat note := Some (if note = 0 then 1 else 0)]"
    if "0 \<le> note" and "note \<le> 15"
  proof -
    from that have "nat note < 16" by simp
    then have "?idx ! nat note = int (nat note)" by (rule nth_indices16)
    with that have "js_index ?idx note = Some note" by (simp add: js_index_def)
    then have t: "truthy (js_index ?idx note) = (note \<noteq> 0)" by (simp add: truthy_def)
    have "activePadLights ?idx note True =
            (map Some ?idx)[nat note := Some (if truthy (js_index ?idx note) then 0 else 1)]"
      using that by (intro activePadLights_running) simp_all
    then show ?thesis unfolding t by simp
  qed
  from pads stopped running show ?thesis by simp
qed

theorem pads_fall_back_to_indices_witness:
  "(\<exists>d. dataset_entry
            (createDataset [''bassDrum''] (Some [(''bassDrum'', Some \<lparr>a = Some (replicate 16 1), b = None\<rparr>)]))
            ''bassDrum'' = Some d \<and> get_bank d Bank_b = None)
   \<and> activeInstrumentPads
       (createDataset [''bassDrum''] (Some [(''bassDrum'', Some \<lparr>a = Some (replicate 16 1), b = None\<rparr>)]))
       ''bassDrum'' Bank_b
     = [0, 1, 2, 3, 4, 5, 6, 7, 8, 9, 10, 11, 12, 13, 14, 15]
   \<and> activePadLights (activeInstrumentPads
       (createDataset [''bassDrum''] (Some [(''bassDrum'', Some \<lparr>a = Some (replicate 16 1), b = None\<rparr>)]))
       ''bassDrum'' Bank_b) 3 True
     = [Some 0, Some 1, Some 2, Some 0, Some 4, Some 5, Some 6, Some 7, Some 8, Some 9, Some 10,
        Some 11, Some 12, Some 13, Some 14, Some 15]"
proof -
  let ?ds = "createDataset [''bassDrum''] (Some [(''bassDrum'', Some \<lparr>a = Some (replicate 16 (1::int)), b = None\<rparr>)])"
  have h: "\<exists>d. dataset_entry ?ds ''bassDrum'' = Some d \<and> get_bank d Bank_b = None"
    by (simp add: createDataset_def object_fromEntries_def object_assign_def dataset_entry_def)
  then have h': "dataset_entry ?ds ''bassDrum'' = None
       \<or> (\<exists>d. dataset_entry ?ds ''bassDrum'' = Some d \<and> get_bank d Bank_b = None)"
    by (rule disjI2)
  note fallback = pads_fall_back_to_indices [OF h', of 3]
  from fallback have pads: "activeInstrumentPads ?ds ''bassDrum'' Bank_b
      = [0, 1, 2, 3, 4, 5, 6, 7, 8, 9, 10, 11, 12, 13, 14, 15]"
    by (rule conjunct1)
  from fallback [THEN conjunct2, THEN conjunct2]
  have "activePadLights (activeInstrumentPads ?ds ''bassDrum'' Bank_b) 3 True
      = (map Some [0, 1, 2, 3, 4, 5, 6, 7, 8, 9, 10, 11, 12, 13, 14, 15])
          [nat 3 := Some (if (3::int) = 0 then 1 else 0)]"
    by simp
  then have lights: "activePadLights (activeInstrumentPads ?ds ''bassDrum'' Bank_b) 3 True
      = [Some 0, Some 1, Some 2, Some 0, Some 4, Some 5, Some 6, Some 7, Some 8, Some 9, Some 10,
         Some 11, Some 12, Some 13, Some 14, Some 15]"
    by (simp add: eval_nat_numeral)
  from h pads lights show ?thesis by (intro conjI)
qed

end
